theory Spec2Isabelle
  imports Complex_Main
begin

text \<open>
  A model of the evaluation server (\<open>EvaluationServer\<close>: connection registry, message
  routing, registration, status updates, disconnects, dispatch and validation of
  evaluations) and of the agent runtime that is its peer (\<open>EvaluationAgent\<close>:
  registration acknowledgements and \<open>evaluate\<close> requests). Handlers are functions from
  the state before to the state after; objects shared by reference live in a store;
  what a handler sends or logs is appended to a list in the state; what comes from
  outside (time stamps, fresh ids, the outcome of a remote call or of a race) is an
  argument. The correlator, the client manager and the judge are collaborators whose
  code is elsewhere; they appear as far as the handlers use them.
\<close>

section \<open>JavaScript values at the interfaces\<close>

text \<open>
  A property of string type that may be absent: \<open>None\<close> stands for \<open>undefined\<close>
  (and for \<open>null\<close>).
\<close>

type_synonym jstring = "string option"

text \<open>JavaScript truthiness of such a property: absent and the empty string are falsy.\<close>

definition truthy :: "jstring \<Rightarrow> bool" where
  "truthy s = (case s of None \<Rightarrow> False | Some t \<Rightarrow> t \<noteq> [])"


section \<open>Wire protocol\<close>

text \<open>
  The value of \<open>capabilities.tools\<close> when it is there: an array of names, or some other
  value (a string, a number, an object), which has no \<open>join\<close> method.
\<close>

datatype tools_value = ToolsArray "string list" | ToolsOther

text \<open>
  The \<open>capabilities\<close> object of a \<open>register\<close> frame. The registration handler stores the
  object as a whole and reads only \<open>tools\<close> (for a log line); \<open>tabId\<close> is a key a client
  may put there.
\<close>

record capabilities =
  tools :: "tools_value option"
  tabId :: jstring
  maxConcurrency :: "nat option"
  version :: jstring

text \<open>
  The \<open>result\<close> of an \<open>evaluate\<close> call: \<open>resp_output\<close> is the JSON text of
  \<open>response.output\<close> (\<open>None\<close> when that property is absent or falsy), \<open>resp_raw\<close> the JSON
  text of the whole response.
\<close>

record response =
  resp_output :: jstring
  resp_executionTime :: "nat option"
  resp_raw :: string

text \<open>
  An inbound frame after \<open>JSON.parse\<close>, with the properties the handlers read. The
  fields carry the types of the wire schema; every one of them may be absent.
\<close>

record frame =
  f_type :: jstring
  f_id :: jstring
  f_clientId :: jstring
  f_secretKey :: jstring
  f_capabilities :: "capabilities option"
  f_evaluationId :: jstring
  f_status :: jstring
  f_progress :: "rat option"
  f_message :: jstring
  f_result :: "response option"
  f_error :: jstring

text \<open>
  A raw inbound message, by what \<open>JSON.parse\<close> makes of it: \<open>NotJson\<close> throws a
  SyntaxError; \<open>JsonNull\<close> parses to \<open>null\<close>, on which reading \<open>data.type\<close> throws a
  TypeError; \<open>JsonOther\<close> is a number, string, boolean or array, whose \<open>type\<close> property
  is \<open>undefined\<close>; \<open>JsonObject\<close> is an object.
\<close>

datatype message = NotJson | JsonNull | JsonOther | JsonObject frame

record registration_ack =
  ack_clientId :: jstring
  ack_status :: string
  ack_reason :: jstring
  ack_message :: jstring
  ack_evaluationsCount :: "nat option"

record evaluate_params =
  p_evaluationId :: jstring
  p_name :: jstring
  p_url :: jstring
  p_tool :: jstring
  p_input :: jstring
  p_timeout :: nat
  p_tags :: "string list"
  p_retries :: nat

text \<open>Frames the server sends.\<close>

datatype server_frame =
    Welcome string string string
  | Pong string
  | RegistrationAck registration_ack
  | RpcRequest string string evaluate_params

text \<open>
  A socket as the server sees it: whether \<open>ws.readyState === ws.OPEN\<close>, and the frames
  handed to \<open>ws.send\<close> so far.
\<close>

record ws =
  is_open :: bool
  sent :: "server_frame list"

text \<open>\<open>sendMessage(ws, data)\<close>: sends only on an open socket.\<close>

definition sendMessage :: "ws \<Rightarrow> server_frame \<Rightarrow> ws" where
  "sendMessage w d = (if is_open w then w\<lparr>sent := sent w @ [d]\<rparr> else w)"

section \<open>RPC correlator\<close>

record pending_call =
  pc_method :: string
  pc_params :: evaluate_params
  pc_timeoutMs :: nat

text \<open>How the promise of a call was settled.\<close>

datatype rpc_outcome = Resolved "response option" | Rejected string

text \<open>
  The per-connection correlator: the calls outstanding, by correlation id, and the
  completion signals fired so far, in order.
\<close>

record rpcClient =
  pendingRequests :: "(string \<times> pending_call) list"
  settled :: "(string \<times> rpc_outcome) list"

definition connection_closed :: string where
  "connection_closed = ''Connection closed''"

text \<open>
  Modelled from the spec: \<open>RpcClient.handleResponse\<close> (rpc-client.js is not among the
  sources). It matches \<open>frame.id\<close> against the pending entries; on a match it removes the
  entry, resolves or rejects the call with the frame's result or error and returns true
  (frame consumed); on no match it returns false and changes nothing.
\<close>

definition handleResponse :: "rpcClient \<Rightarrow> message \<Rightarrow> bool \<times> rpcClient" where
  "handleResponse rc m =
     (case m of
        JsonObject f \<Rightarrow>
          (case f_id f of
             None \<Rightarrow> (False, rc)
           | Some i \<Rightarrow>
               (case map_of (pendingRequests rc) i of
                  None \<Rightarrow> (False, rc)
                | Some p \<Rightarrow>
                    (True,
                     rc\<lparr>pendingRequests := filter (\<lambda>e. fst e \<noteq> i) (pendingRequests rc),
                        settled := settled rc @
                          [(i, case f_error f of
                                 Some e \<Rightarrow> Rejected e
                               | None \<Rightarrow> Resolved (f_result f))]\<rparr>)))
      | _ \<Rightarrow> (False, rc))"

text \<open>
  Modelled from the spec: \<open>RpcClient.cleanup\<close> (rpc-client.js is not among the sources).
  It immediately fails all pending calls owned by the connection, with a
  connection-closed error, and leaves no pending entry.
\<close>

definition cleanup :: "rpcClient \<Rightarrow> rpcClient" where
  "cleanup rc =
     rc\<lparr>pendingRequests := [],
        settled := settled rc @
          map (\<lambda>e. (fst e, Rejected connection_closed)) (pendingRequests rc)\<rparr>"

text \<open>
  Modelled from the spec: \<open>RpcClient.callMethod\<close> (rpc-client.js is not among the
  sources), up to the point where the caller awaits. The call is entered in the pending
  map under the correlation id \<open>i\<close> the correlator generated, and the request frame is
  put on the connection's socket.
\<close>

definition callMethod :: "rpcClient \<Rightarrow> ws \<Rightarrow> string \<Rightarrow> string \<Rightarrow> evaluate_params \<Rightarrow> nat
    \<Rightarrow> rpcClient \<times> ws" where
  "callMethod rc w i method params timeoutMs =
     (rc\<lparr>pendingRequests := pendingRequests rc @
            [(i, \<lparr>pc_method = method, pc_params = params, pc_timeoutMs = timeoutMs\<rparr>)]\<rparr>,
      sendMessage w (RpcRequest i method params))"

section \<open>Client manager\<close>

record llm_judge_config =
  criteria :: "string list option"
  model :: jstring

record validation_config =
  v_type :: jstring
  v_llm_judge :: "llm_judge_config option"
  v_threshold :: "rat option"

record judge_result =
  score :: "rat option"
  judge_text :: string

record validation_result =
  vr_type :: string
  vr_result :: judge_result
  vr_passed :: bool

text \<open>What the dispatcher stores with a status: the fields of its result object.\<close>

record eval_result =
  r_response :: "response option"
  r_validation :: "validation_result option"
  r_error :: jstring
  r_duration :: nat

text \<open>
  An evaluation definition with its stored status and last result. \<open>v_threshold\<close> is a
  \<open>threshold\<close> entry of the definition's validation block.
\<close>

record evaluation =
  e_id :: string
  e_name :: string
  e_description :: jstring
  e_tool :: jstring
  e_input :: jstring
  e_url :: jstring
  e_target_url :: jstring
  e_timeout :: "nat option"
  e_tags :: "string list option"
  e_max_retries :: "nat option"
  e_validation :: "validation_config option"
  e_status :: jstring
  e_lastResult :: "eval_result option"

record client_validation =
  valid :: bool
  reason :: jstring

record registration =
  clientName :: jstring
  evaluationsCount :: "nat option"

text \<open>
  The client manager (client-manager.js is not among the sources). \<open>validateClient\<close> and
  \<open>registerClient\<close> are taken as they come, as functions of their arguments;
  \<open>registerClient\<close> may throw, which is \<open>Inl\<close> of the error's message. \<open>evaluations\<close> are
  the evaluation definitions each client owns.
\<close>

record clientManager =
  validateClient :: "jstring \<Rightarrow> jstring \<Rightarrow> client_validation"
  registerClient :: "jstring \<Rightarrow> jstring \<Rightarrow> capabilities option \<Rightarrow> string + registration"
  evaluations :: "string \<Rightarrow> evaluation list"

text \<open>
  Modelled from the spec: \<open>ClientManager.updateEvaluationStatus(clientId, evaluationId,
  status, result)\<close> (client-manager.js is not among the sources). It sets the status of
  that evaluation of that client, and its last result when one is passed; the
  dispatcher uses it for \<open>running\<close>, \<open>completed\<close> and \<open>failed\<close>, the operator console
  to reset to \<open>pending\<close>.
\<close>

definition updateEvaluationStatus ::
    "clientManager \<Rightarrow> jstring \<Rightarrow> jstring \<Rightarrow> jstring \<Rightarrow> eval_result option \<Rightarrow> clientManager" where
  "updateEvaluationStatus cm cid eid st res =
     (case cid of
        None \<Rightarrow> cm
      | Some c \<Rightarrow>
          cm\<lparr>evaluations := (evaluations cm)
            (c := map (\<lambda>e. if Some (e_id e) = eid
                             then e\<lparr>e_status := st,
                                    e_lastResult := (case res of None \<Rightarrow> e_lastResult e
                                                     | Some x \<Rightarrow> Some x)\<rparr>
                             else e)
                      (evaluations cm c))\<rparr>)"

text \<open>The stored status of an evaluation of a client, if there is such an evaluation.\<close>

definition evaluationStatus :: "clientManager \<Rightarrow> string \<Rightarrow> string \<Rightarrow> jstring option" where
  "evaluationStatus cm c eid =
     map_option e_status (find (\<lambda>e. e_id e = eid) (evaluations cm c))"


section \<open>Server process\<close>

datatype level = Info | Warn | Error

text \<open>A connection object, with the fields \<open>handleConnection\<close> gives it and those set later
  (\<open>ready\<close> is absent, so falsy, until a \<open>ready\<close> frame sets it).\<close>

record connection =
  conn_id :: string
  conn_ws :: ws
  conn_rpcClient :: rpcClient
  connectedAt :: string
  remoteAddress :: string
  registered :: bool
  clientId :: jstring
  ready :: bool
  conn_capabilities :: "capabilities option"

text \<open>
  The server. Connection objects are shared by reference between the directory
  \<open>connectedAgents\<close> and the socket callbacks that hold them, so they live in a store
  \<open>connections\<close> from references to objects, and the directory maps keys to references.
  A directory key is a connection id or whatever \<open>clientId\<close> a register frame carried.
  \<open>logs\<close> are the logger calls made, by level and message.
\<close>

record server =
  connectedAgents :: "jstring \<rightharpoonup> nat"
  connections :: "nat \<rightharpoonup> connection"
  next_ref :: nat
  clientManager :: clientManager
  logs :: "(level \<times> string) list"

definition logger :: "level \<Rightarrow> string \<Rightarrow> server \<Rightarrow> server" where
  "logger l m srv = srv\<lparr>logs := logs srv @ [(l, m)]\<rparr>"

definition set_connection :: "nat \<Rightarrow> connection \<Rightarrow> server \<Rightarrow> server" where
  "set_connection r c srv = srv\<lparr>connections := (connections srv)(r \<mapsto> c)\<rparr>"

text \<open>
  \<open>handleConnection(ws, request)\<close>: \<open>connectionId\<close> is the fresh uuid, \<open>now\<close> the time
  stamp. The new connection object is stored under its connection id and the welcome
  frame is sent. Returns the reference of the new object too.
\<close>

definition handleConnection :: "server \<Rightarrow> string \<Rightarrow> string \<Rightarrow> string \<Rightarrow> server \<times> nat" where
  "handleConnection srv connectionId remote now =
     (let r = next_ref srv;
          c = \<lparr>conn_id = connectionId,
               conn_ws = sendMessage \<lparr>is_open = True, sent = []\<rparr>
                           (Welcome ''server-001'' ''1.0.0'' now),
               conn_rpcClient = \<lparr>pendingRequests = [], settled = []\<rparr>,
               connectedAt = now,
               remoteAddress = remote,
               registered = False,
               clientId = None,
               ready = False,
               conn_capabilities = None\<rparr>
      in (logger Info ''connected''
            (srv\<lparr>connectedAgents := (connectedAgents srv)(Some connectionId \<mapsto> r),
                 connections := (connections srv)(r \<mapsto> c),
                 next_ref := Suc r\<rparr>),
          r))"

text \<open>The \<open>message\<close> of an accepting acknowledgement:
  \<open>result.clientName ? `Welcome ${result.clientName}` : 'Client registered successfully'\<close>.\<close>

definition welcome_text :: "jstring \<Rightarrow> string" where
  "welcome_text n =
     (case n of
        None \<Rightarrow> ''Client registered successfully''
      | Some t \<Rightarrow> if t = [] then ''Client registered successfully'' else ''Welcome '' @ t)"

text \<open>
  Whether \<open>capabilities?.tools?.join(', ')\<close> throws: it does when \<open>tools\<close> is there and is
  not an array, with a TypeError of this message.
\<close>

definition join_throws :: "capabilities option \<Rightarrow> bool" where
  "join_throws caps =
     (case caps of
        None \<Rightarrow> False
      | Some cp \<Rightarrow> (case tools cp of
                     None \<Rightarrow> False
                   | Some (ToolsArray ts) \<Rightarrow> False
                   | Some ToolsOther \<Rightarrow> True))"

definition join_type_error :: string where
  "join_type_error = ''capabilities?.tools?.join is not a function''"

text \<open>
  \<open>handleRegistration(connection, data)\<close>, on the connection object at reference \<open>r\<close>.
  Its body runs in a \<open>try\<close>: what throws inside it, \<open>registerClient\<close> or the arguments of
  the last log call, ends in the \<open>catch\<close>, which logs the error and sends a rejecting
  acknowledgement with the error's message.
\<close>

definition handleRegistration :: "server \<Rightarrow> nat \<Rightarrow> frame \<Rightarrow> server" where
  "handleRegistration srv r data =
     (case connections srv r of
        None \<Rightarrow> srv
      | Some c \<Rightarrow>
          (let cm = clientManager srv;
               validation = validateClient cm (f_clientId data) (f_secretKey data)
           in if \<not> valid validation then
                logger Warn ''Client registration rejected''
                  (set_connection r
                     (c\<lparr>conn_ws := sendMessage (conn_ws c)
                          (RegistrationAck
                             \<lparr>ack_clientId = f_clientId data, ack_status = ''rejected'',
                              ack_reason = reason validation, ack_message = None,
                              ack_evaluationsCount = None\<rparr>)\<rparr>) srv)
              else
                (case registerClient cm (f_clientId data) (f_secretKey data)
                        (f_capabilities data) of
                   Inl err \<Rightarrow>
                     set_connection r
                       (c\<lparr>conn_ws := sendMessage (conn_ws c)
                            (RegistrationAck
                               \<lparr>ack_clientId = f_clientId data, ack_status = ''rejected'',
                                ack_reason = Some err, ack_message = None,
                                ack_evaluationsCount = None\<rparr>)\<rparr>)
                       (logger Error ''Registration error'' srv)
                 | Inr result \<Rightarrow>
                     (let c1 = c\<lparr>registered := True, clientId := f_clientId data,
                                 conn_capabilities := f_capabilities data\<rparr>;
                          agents1 = (connectedAgents srv)(Some (conn_id c1) := None);
                          agents2 = agents1(f_clientId data \<mapsto> r);
                          c2 = c1\<lparr>conn_ws := sendMessage (conn_ws c1)
                                 (RegistrationAck
                                    \<lparr>ack_clientId = f_clientId data,
                                     ack_status = ''accepted'',
                                     ack_reason = None,
                                     ack_message = Some (welcome_text (clientName result)),
                                     ack_evaluationsCount = evaluationsCount result\<rparr>)\<rparr>;
                          srv2 = set_connection r c2 (srv\<lparr>connectedAgents := agents2\<rparr>)
                      in if join_throws (f_capabilities data) then
                           set_connection r
                             (c2\<lparr>conn_ws := sendMessage (conn_ws c2)
                                   (RegistrationAck
                                      \<lparr>ack_clientId = f_clientId data,
                                       ack_status = ''rejected'',
                                       ack_reason = Some join_type_error,
                                       ack_message = None,
                                       ack_evaluationsCount = None\<rparr>)\<rparr>)
                             (logger Error ''Registration error'' srv2)
                         else logger Info ''Client registered successfully'' srv2))))"

text \<open>\<open>handleStatusUpdate(connection, data)\<close>.\<close>

definition handleStatusUpdate :: "server \<Rightarrow> nat \<Rightarrow> frame \<Rightarrow> server" where
  "handleStatusUpdate srv r data =
     (case connections srv r of
        None \<Rightarrow> srv
      | Some c \<Rightarrow>
          if \<not> registered c then srv
          else
            (let srv1 = logger Info ''Evaluation status update'' srv
             in srv1\<lparr>clientManager :=
                  updateEvaluationStatus (clientManager srv1) (clientId c)
                    (f_evaluationId data) (f_status data) None\<rparr>))"

text \<open>\<open>handleDisconnection(connection)\<close>.\<close>

definition handleDisconnection :: "server \<Rightarrow> nat \<Rightarrow> server" where
  "handleDisconnection srv r =
     (case connections srv r of
        None \<Rightarrow> srv
      | Some c \<Rightarrow>
          (let c1 = c\<lparr>conn_rpcClient := cleanup (conn_rpcClient c)\<rparr>;
               agents = (if registered c1 \<and> truthy (clientId c1)
                         then (connectedAgents srv)(clientId c1 := None)
                         else (connectedAgents srv)(Some (conn_id c1) := None))
           in logger Info ''disconnected''
                (set_connection r c1 (srv\<lparr>connectedAgents := agents\<rparr>))))"

text \<open>
  \<open>handleMessage(connection, message)\<close>; \<open>now\<close> is the time stamp a pong would carry.
  The whole body runs in a \<open>try\<close> whose \<open>catch\<close> logs a warning and returns.
\<close>

definition handleMessage :: "server \<Rightarrow> nat \<Rightarrow> message \<Rightarrow> string \<Rightarrow> server" where
  "handleMessage srv r msg now =
     (case connections srv r of
        None \<Rightarrow> srv
      | Some c \<Rightarrow>
          (case handleResponse (conn_rpcClient c) msg of
             (True, rc) \<Rightarrow> set_connection r (c\<lparr>conn_rpcClient := rc\<rparr>) srv
           | (False, rc) \<Rightarrow>
               (case msg of
                  NotJson \<Rightarrow> logger Warn ''Failed to parse message'' srv
                | JsonNull \<Rightarrow> logger Warn ''Failed to parse message'' srv
                | JsonOther \<Rightarrow> logger Warn ''Unknown message type'' srv
                | JsonObject data \<Rightarrow>
                    if f_type data = Some ''register'' then handleRegistration srv r data
                    else if f_type data = Some ''ping'' then
                      set_connection r (c\<lparr>conn_ws := sendMessage (conn_ws c) (Pong now)\<rparr>) srv
                    else if f_type data = Some ''ready'' then
                      (if \<not> registered c then
                         logger Warn ''Received ready signal from unregistered client'' srv
                       else
                         logger Info ''Client ready for evaluations''
                           (set_connection r (c\<lparr>ready := True\<rparr>) srv))
                    else if f_type data = Some ''status'' then handleStatusUpdate srv r data
                    else logger Warn ''Unknown message type'' srv)))"

text \<open>A run of the message handler over the frames arriving on any connections, in order.\<close>

fun handleMessages :: "server \<Rightarrow> (nat \<times> message \<times> string) list \<Rightarrow> server" where
  "handleMessages srv [] = srv"
| "handleMessages srv ((r, msg, now) # rest) = handleMessages (handleMessage srv r msg now) rest"


text \<open>What happens to the server from outside: a socket connects, a frame arrives on a
  connection, a socket closes.\<close>

datatype event =
    Connect string string string
  | Message nat message string
  | Disconnect nat

fun step :: "server \<Rightarrow> event \<Rightarrow> server" where
  "step srv (Connect connectionId remote now) = fst (handleConnection srv connectionId remote now)"
| "step srv (Message r msg now) = handleMessage srv r msg now"
| "step srv (Disconnect r) = handleDisconnection srv r"

fun run :: "server \<Rightarrow> event list \<Rightarrow> server" where
  "run srv [] = srv"
| "run srv (e # es) = run (step srv e) es"

text \<open>The server as its constructor leaves it: no connection yet.\<close>

definition new_server :: "clientManager \<Rightarrow> server" where
  "new_server cm =
     \<lparr>connectedAgents = Map.empty, connections = Map.empty, next_ref = 0,
      clientManager = cm, logs = []\<rparr>"

text \<open>On every connection object, \<open>ready\<close> only with \<open>registered\<close>.\<close>

definition ready_implies_registered :: "server \<Rightarrow> bool" where
  "ready_implies_registered srv =
     (\<forall>r c. connections srv r = Some c \<longrightarrow> ready c \<longrightarrow> registered c)"

section \<open>Evaluation dispatcher and validation\<close>

text \<open>
  The judge (evaluator.js is not among the sources) is taken as it comes: a function of
  the task, the output text, the criteria and the model, whose call may throw (\<open>Inl\<close> of
  the error's message). A score that is absent or not a number is \<open>None\<close>; scores are the
  rational numbers their JSON text denotes.
\<close>

type_synonym judge = "string \<Rightarrow> string \<Rightarrow> string list \<Rightarrow> jstring \<Rightarrow> string + judge_result"

text \<open>The message of the TypeError that reading a property of \<open>undefined\<close> throws.\<close>

definition type_error :: string where
  "type_error = ''Cannot read properties of undefined''"

text \<open>\<open>validateResponse(response, evaluation)\<close>; \<open>Inl\<close> is a thrown error's message,
  \<open>Inr None\<close> the \<open>null\<close> it returns for the other validation types.\<close>

definition validateResponse ::
    "judge \<Rightarrow> response \<Rightarrow> evaluation \<Rightarrow> string + validation_result option" where
  "validateResponse evaluator resp ev =
     (case e_validation ev of
        None \<Rightarrow> Inl type_error
      | Some validation \<Rightarrow>
          if v_type validation = Some ''llm-judge'' \<or> v_type validation = Some ''hybrid'' then
            (case v_llm_judge validation of
               None \<Rightarrow> Inl type_error
             | Some llmConfig \<Rightarrow>
                 (let crit = (case criteria llmConfig of None \<Rightarrow> [] | Some cs \<Rightarrow> cs);
                      task = e_name ev @ '' - '' @
                               (case e_description ev of None \<Rightarrow> [] | Some d \<Rightarrow> d);
                      outputText = (case resp_output resp of
                                      None \<Rightarrow> resp_raw resp | Some t \<Rightarrow> t)
                  in case evaluator task outputText crit (model llmConfig) of
                       Inl err \<Rightarrow> Inl err
                     | Inr judgeResult \<Rightarrow>
                         Inr (Some \<lparr>vr_type = ''llm-judge'',
                                    vr_result = judgeResult,
                                    vr_passed = (case score judgeResult of
                                                   None \<Rightarrow> False
                                                 | Some s \<Rightarrow> s \<ge> 7 / 10)\<rparr>)))
          else Inr None)"

text \<open>\<open>x || d\<close> on a number that may be absent: absent and 0 are falsy.\<close>

definition or_default :: "nat option \<Rightarrow> nat \<Rightarrow> nat" where
  "or_default x d = (case x of None \<Rightarrow> d | Some n \<Rightarrow> if n = 0 then d else n)"

text \<open>The \<open>params\<close> of the request \<open>executeEvaluation\<close> builds.\<close>

definition rpc_params :: "evaluation \<Rightarrow> evaluate_params" where
  "rpc_params ev =
     \<lparr>p_evaluationId = Some (e_id ev),
      p_name = Some (e_name ev),
      p_url = (if truthy (e_target_url ev) then e_target_url ev else e_url ev),
      p_tool = e_tool ev,
      p_input = e_input ev,
      p_timeout = or_default (e_timeout ev) 30000,
      p_tags = (case e_tags ev of None \<Rightarrow> [] | Some ts \<Rightarrow> ts),
      p_retries = or_default (e_max_retries ev) 0\<rparr>"

text \<open>
  \<open>executeEvaluation(client, evaluation)\<close> is asynchronous; it is modelled in the two
  parts its one \<open>await\<close> on the RPC call splits it into. \<open>executeEvaluation_begin\<close> is the
  part that runs when it is called, up to that \<open>await\<close>: \<open>callId\<close> is the correlation id
  the correlator generates for the call.
\<close>

definition executeEvaluation_begin :: "server \<Rightarrow> nat \<Rightarrow> evaluation \<Rightarrow> string \<Rightarrow> server" where
  "executeEvaluation_begin srv r ev callId =
     (case connections srv r of
        None \<Rightarrow> srv
      | Some client \<Rightarrow>
          (let srv1 = logger Info ''Starting evaluation'' srv;
               srv2 = srv1\<lparr>clientManager :=
                        updateEvaluationStatus (clientManager srv1) (clientId client)
                          (Some (e_id ev)) (Some ''running'') None\<rparr>;
               (rc, w) = callMethod (conn_rpcClient client) (conn_ws client) callId
                           ''evaluate'' (rpc_params ev) (or_default (e_timeout ev) 45000)
           in set_connection r (client\<lparr>conn_rpcClient := rc, conn_ws := w\<rparr>) srv2))"

text \<open>The \<open>catch\<close> block of \<open>executeEvaluation\<close>: the evaluation is marked failed and the
  error is thrown again.\<close>

definition evaluation_failed ::
    "server \<Rightarrow> connection \<Rightarrow> evaluation \<Rightarrow> string \<Rightarrow> nat \<Rightarrow> server \<times> (string + unit)" where
  "evaluation_failed srv client ev err duration =
     (let srv1 = logger Error ''Evaluation failed'' srv
      in (srv1\<lparr>clientManager :=
                updateEvaluationStatus (clientManager srv1) (clientId client)
                  (Some (e_id ev)) (Some ''failed'')
                  (Some \<lparr>r_response = None, r_validation = None, r_error = Some err,
                         r_duration = duration\<rparr>)\<rparr>,
          Inl err))"

text \<open>
  \<open>executeEvaluation_settle\<close> is the part that runs once the RPC call has settled with
  \<open>outcome\<close>; \<open>duration\<close> is \<open>Date.now() - startTime\<close>. The second component is
  \<open>Inl\<close> of the message of the error it throws, or \<open>Inr ()\<close> when it returns.
\<close>

definition executeEvaluation_settle ::
    "judge \<Rightarrow> server \<Rightarrow> nat \<Rightarrow> evaluation \<Rightarrow> rpc_outcome \<Rightarrow> nat \<Rightarrow> server \<times> (string + unit)" where
  "executeEvaluation_settle evaluator srv r ev outcome duration =
     (case connections srv r of
        None \<Rightarrow> (srv, Inr ())
      | Some client \<Rightarrow>
          (case outcome of
             Rejected err \<Rightarrow> evaluation_failed srv client ev err duration
           | Resolved None \<Rightarrow> evaluation_failed srv client ev type_error duration
           | Resolved (Some resp) \<Rightarrow>
               (let srv1 = logger Info ''Evaluation response received'' srv
                in case (if e_validation ev = None then Inr None
                         else validateResponse evaluator resp ev) of
                     Inl err \<Rightarrow> evaluation_failed srv1 client ev err duration
                   | Inr validationResult \<Rightarrow>
                       (logger Info ''evaluation''
                          (srv1\<lparr>clientManager :=
                             updateEvaluationStatus (clientManager srv1) (clientId client)
                               (Some (e_id ev)) (Some ''completed'')
                               (Some \<lparr>r_response = Some resp,
                                      r_validation = validationResult,
                                      r_error = None,
                                      r_duration = duration\<rparr>)\<rparr>),
                        Inr ()))))"

text \<open>
  \<open>processClientEvaluations(clientId)\<close>, up to the \<open>await\<close> inside the dispatch it starts.
  \<open>nextEvaluation\<close> is what \<open>clientManager.getNextEvaluation(clientId)\<close> returns (client-manager.js
  is not among the sources).
\<close>

definition processClientEvaluations ::
    "server \<Rightarrow> jstring \<Rightarrow> evaluation option \<Rightarrow> string \<Rightarrow> server" where
  "processClientEvaluations srv cid nextEvaluation callId =
     (case connectedAgents srv cid of
        None \<Rightarrow> srv
      | Some r \<Rightarrow>
          (case connections srv r of
             None \<Rightarrow> srv
           | Some client \<Rightarrow>
               if \<not> ready client then srv
               else (case nextEvaluation of
                       None \<Rightarrow> logger Info ''No pending evaluations for client'' srv
                     | Some ev \<Rightarrow> executeEvaluation_begin srv r ev callId)))"

section \<open>Agent runtime\<close>



text \<open>An \<open>evaluate\<close> request as the agent reads it: its \<open>id\<close> and the \<open>params\<close> it uses.\<close>

record evaluation_request =
  rq_id :: string
  rq_evaluationId :: string
  rq_tool :: string
  rq_url :: jstring
  rq_input :: string
  rq_timeout :: "nat option"

text \<open>The symbolic error code of a failed tool run (\<open>ErrorCodes.TOOL_EXECUTION_ERROR\<close>).\<close>

datatype error_code = TOOL_EXECUTION_ERROR

text \<open>Frames the agent hands to \<open>client.send\<close>: control frames, and the two JSON-RPC
  responses. \<open>RpcSuccess\<close> carries the \<open>id\<close>, \<open>result.output\<close> and
  \<open>result.executionTime\<close>; \<open>RpcError\<close> carries the \<open>id\<close>, \<open>error.code\<close>,
  \<open>error.message\<close>, \<open>error.data.tool\<close> and \<open>error.data.error\<close>.\<close>

datatype agent_frame =
    Register string jstring
  | Ready
  | Ping
  | Status string string rat string
  | RpcSuccess string string int
  | RpcError string error_code string string string

text \<open>
  What the agent does to the outside: frames sent on a socket client, a socket client
  disconnected, an interval timer started or cleared. A socket client and a timer are
  known by their handles.
\<close>

datatype effect =
    Sent nat agent_frame
  | Disconnected nat
  | IntervalSet nat
  | IntervalCleared nat

text \<open>The agent object. \<open>client\<close> is the socket client or \<open>null\<close>; \<open>heartbeatInterval\<close>
  is the timer handle or \<open>null\<close> (handles are non-zero numbers, so a handle is truthy);
  \<open>effects\<close> is the trace of what the agent has done.\<close>

record agent =
  client :: "nat option"
  a_clientId :: string
  a_secretKey :: jstring
  a_registered :: bool
  a_ready :: bool
  activeEvaluations :: "string \<rightharpoonup> int \<times> string"
  heartbeatInterval :: "nat option"
  effects :: "effect list"

definition effect :: "effect \<Rightarrow> agent \<Rightarrow> agent" where
  "effect e a = a\<lparr>effects := effects a @ [e]\<rparr>"

text \<open>\<open>if (this.client) { this.client.send(frame); }\<close>\<close>

definition send_if_client :: "agent \<Rightarrow> agent_frame \<Rightarrow> agent" where
  "send_if_client a f = (case client a of None \<Rightarrow> a | Some s \<Rightarrow> effect (Sent s f) a)"

text \<open>\<open>disconnect()\<close>.\<close>

definition disconnect :: "agent \<Rightarrow> agent" where
  "disconnect a =
     (let a1 = (case heartbeatInterval a of
                  None \<Rightarrow> a
                | Some h \<Rightarrow> (effect (IntervalCleared h) a)\<lparr>heartbeatInterval := None\<rparr>);
          a2 = (case client a1 of
                  None \<Rightarrow> a1
                | Some s \<Rightarrow> (effect (Disconnected s) a1)\<lparr>client := None\<rparr>)
      in a2\<lparr>a_registered := False, a_ready := False, activeEvaluations := Map.empty\<rparr>)"

text \<open>\<open>register()\<close>.\<close>

definition register :: "agent \<Rightarrow> agent" where
  "register a =
     (case client a of
        None \<Rightarrow> a
      | Some s \<Rightarrow> effect (Sent s (Register (a_clientId a) (a_secretKey a))) a)"

text \<open>\<open>sendReady()\<close>.\<close>

definition sendReady :: "agent \<Rightarrow> agent" where
  "sendReady a =
     (case client a of
        None \<Rightarrow> a
      | Some s \<Rightarrow> if \<not> a_registered a then a
                  else (effect (Sent s Ready) a)\<lparr>a_ready := True\<rparr>)"

text \<open>\<open>startHeartbeat()\<close>; \<open>h\<close> is the handle \<open>setInterval\<close> returns.\<close>

definition startHeartbeat :: "agent \<Rightarrow> nat \<Rightarrow> agent" where
  "startHeartbeat a h =
     (case heartbeatInterval a of
        Some _ \<Rightarrow> a
      | None \<Rightarrow> (effect (IntervalSet h) a)\<lparr>heartbeatInterval := Some h\<rparr>)"

text \<open>\<open>handleRegistrationAck(message)\<close>, on the \<open>status\<close> of the acknowledgement.\<close>

definition handleRegistrationAck :: "agent \<Rightarrow> string \<Rightarrow> nat \<Rightarrow> agent" where
  "handleRegistrationAck a status h =
     (if status = ''accepted''
      then startHeartbeat (sendReady (a\<lparr>a_registered := True\<rparr>)) h
      else disconnect a)"

text \<open>\<open>sendStatus(evaluationId, status, progress, message)\<close>.\<close>

definition sendStatus :: "agent \<Rightarrow> string \<Rightarrow> string \<Rightarrow> rat \<Rightarrow> string \<Rightarrow> agent" where
  "sendStatus a evaluationId status progress msg =
     (case client a of
        None \<Rightarrow> a
      | Some s \<Rightarrow> if \<not> a_ready a then a
                  else effect (Sent s (Status evaluationId status progress msg)) a)"

text \<open>
  What a rejected promise or a \<open>throw\<close> carries: an \<open>Error\<close> with its message, or some
  other value. \<open>error_message\<close> is
  \<open>error instanceof Error ? error.message : 'Unknown error'\<close>.
\<close>

datatype thrown = ErrorObject string | OtherValue

definition error_message :: "thrown \<Rightarrow> string" where
  "error_message e = (case e of ErrorObject m \<Rightarrow> m | OtherValue \<Rightarrow> ''Unknown error'')"

text \<open>
  How the promise of \<open>tool.execute(input)\<close> behaves: it resolves with an output, it
  rejects (or \<open>execute\<close> throws), or it never settles. The number is the time, in
  milliseconds after the call, at which the event loop runs the callback of that
  settlement. A tool is a function from its input to that; the registry maps names to
  tools.
\<close>

datatype tool_run = Returns nat string | Throws nat thrown | Hangs

type_synonym tool = "string \<Rightarrow> tool_run"




text \<open>The \<open>catch\<close> block of \<open>handleEvaluationRequest\<close>.\<close>

definition evaluation_request_failed :: "agent \<Rightarrow> evaluation_request \<Rightarrow> thrown \<Rightarrow> agent" where
  "evaluation_request_failed a req e =
     (let errorMessage = error_message e;
          a1 = send_if_client a
                 (RpcError (rq_id req) TOOL_EXECUTION_ERROR ''Tool execution failed''
                    (rq_tool req) errorMessage)
      in sendStatus a1 (rq_evaluationId req) ''failed'' 1 errorMessage)"

text \<open>
  \<open>handleEvaluationRequest(request)\<close> is asynchronous; it is modelled in the two parts
  its one \<open>await\<close> on the tool splits it into. \<open>handleEvaluationRequest_begin\<close> is the
  part that runs when it is called: \<open>registry\<close> is the tool registry
  (\<open>ToolRegistry.getRegisteredTool\<close>), \<open>startTime\<close> the reading of the clock. With no
  tool of that name it runs to its end, through \<open>catch\<close> and \<open>finally\<close>, and returns
  \<open>None\<close> with the agent; else it returns the tool it now awaits.
\<close>

definition handleEvaluationRequest_begin ::
    "(string \<rightharpoonup> tool) \<Rightarrow> agent \<Rightarrow> evaluation_request \<Rightarrow> int \<Rightarrow> agent \<times> tool option" where
  "handleEvaluationRequest_begin registry a req startTime =
     (let a1 = a\<lparr>activeEvaluations :=
                  (activeEvaluations a)(rq_evaluationId req \<mapsto> (startTime, rq_tool req))\<rparr>;
          a2 = sendStatus a1 (rq_evaluationId req) ''running'' (1 / 10)
                 ''Starting evaluation...''
      in case registry (rq_tool req) of
           None \<Rightarrow>
             (let a3 = evaluation_request_failed a2 req
                         (ErrorObject (''Tool not found: '' @ rq_tool req))
              in (a3\<lparr>activeEvaluations :=
                       (activeEvaluations a3)(rq_evaluationId req := None)\<rparr>,
                  None))
         | Some t \<Rightarrow>
             (let b1 = (if truthy (rq_url req)
                        then sendStatus a2 (rq_evaluationId req) ''running'' (2 / 10)
                               ''Navigating to URL...''
                        else a2)
              in (sendStatus b1 (rq_evaluationId req) ''running'' (5 / 10)
                    (''Executing '' @ rq_tool req @ ''...''),
                  Some t)))"

text \<open>
  \<open>handleEvaluationRequest_settle\<close> is the part that runs once the awaited promise has
  settled with \<open>outcome\<close>, on the agent as it is by then; \<open>executionTime\<close> is
  \<open>Date.now() - startTime\<close>, a difference of two clock readings.
\<close>

definition handleEvaluationRequest_settle ::
    "agent \<Rightarrow> evaluation_request \<Rightarrow> thrown + string \<Rightarrow> int \<Rightarrow> agent" where
  "handleEvaluationRequest_settle a req outcome executionTime =
     (let a1 = (case outcome of
                  Inr toolResult \<Rightarrow>
                    sendStatus
                      (send_if_client a (RpcSuccess (rq_id req) toolResult executionTime))
                      (rq_evaluationId req) ''completed'' 1
                      ''Evaluation completed successfully''
                | Inl e \<Rightarrow> evaluation_request_failed a req e)
      in a1\<lparr>activeEvaluations := (activeEvaluations a1)(rq_evaluationId req := None)\<rparr>)"

text \<open>The JSON-RPC response frames among the frames sent, in order.\<close>

fun rpc_responses :: "effect list \<Rightarrow> agent_frame list" where
  "rpc_responses [] = []"
| "rpc_responses (Sent s (RpcSuccess i v d) # es) = RpcSuccess i v d # rpc_responses es"
| "rpc_responses (Sent s (RpcError i c m t e) # es) = RpcError i c m t e # rpc_responses es"
| "rpc_responses (_ # es) = rpc_responses es"

text \<open>The register frames among the frames sent on socket client \<open>s\<close>.\<close>

fun registrations_on :: "nat \<Rightarrow> effect list \<Rightarrow> agent_frame list" where
  "registrations_on s [] = []"
| "registrations_on s (Sent s' (Register c k) # es) =
     (if s' = s then Register c k # registrations_on s es else registrations_on s es)"
| "registrations_on s (_ # es) = registrations_on s es"

text \<open>
  What the agent's event loop runs, one at a time. The first five are the messages its
  \<open>handleMessage\<close> tells apart (the guards are in EvaluationProtocol, not among the
  sources), each with what the environment adds to its handling: the timer handle for
  an acknowledgement, the clock reading for a request, of which the part up to the
  \<open>await\<close> runs. \<open>ToolSettled\<close> is the settlement of the promise a request awaits, with
  the outcome and the execution time: the rest of that request's handler runs.
  \<open>DisconnectCalled\<close> is a call of the public \<open>disconnect()\<close>.
\<close>

datatype agent_message =
    WelcomeMessage
  | RegistrationAckMessage string nat
  | EvaluationRequest evaluation_request int
  | PongMessage
  | UnknownMessage
  | ToolSettled evaluation_request "thrown + string" int
  | DisconnectCalled

fun agent_handleMessage :: "(string \<rightharpoonup> tool) \<Rightarrow> agent \<Rightarrow> agent_message \<Rightarrow> agent" where
  "agent_handleMessage registry a WelcomeMessage = register a"
| "agent_handleMessage registry a (RegistrationAckMessage status h) = handleRegistrationAck a status h"
| "agent_handleMessage registry a (EvaluationRequest req startTime) =
     fst (handleEvaluationRequest_begin registry a req startTime)"
| "agent_handleMessage registry a PongMessage = a"
| "agent_handleMessage registry a UnknownMessage = a"
| "agent_handleMessage registry a (ToolSettled req outcome executionTime) =
     handleEvaluationRequest_settle a req outcome executionTime"
| "agent_handleMessage registry a DisconnectCalled = disconnect a"

fun agent_handleMessages :: "(string \<rightharpoonup> tool) \<Rightarrow> agent \<Rightarrow> agent_message list \<Rightarrow> agent" where
  "agent_handleMessages registry a [] = a"
| "agent_handleMessages registry a (m # ms) =
     agent_handleMessages registry (agent_handleMessage registry a m) ms"


section \<open>Example data\<close>

text \<open>A frame with no property set, and the frames of the examples below.\<close>

definition empty_frame :: frame where
  "empty_frame =
     \<lparr>f_type = None, f_id = None, f_clientId = None, f_secretKey = None,
      f_capabilities = None, f_evaluationId = None, f_status = None, f_progress = None,
      f_message = None, f_result = None, f_error = None\<rparr>"

definition ready_frame :: frame where
  "ready_frame = empty_frame\<lparr>f_type := Some ''ready''\<rparr>"

text \<open>A register frame for client \<open>base\<close> with the given secret, from the given tab.\<close>

definition register_frame :: "string \<Rightarrow> string \<Rightarrow> frame" where
  "register_frame key tab =
     empty_frame\<lparr>f_type := Some ''register'', f_clientId := Some ''base'',
                 f_secretKey := Some key,
                 f_capabilities := Some \<lparr>tools = Some (ToolsArray []), tabId = Some tab,
                                         maxConcurrency = Some 3,
                                         version = Some ''1.0.0''\<rparr>\<rparr>"

text \<open>A status frame that reports evaluation \<open>e1\<close> completed.\<close>

definition status_frame :: frame where
  "status_frame =
     empty_frame\<lparr>f_type := Some ''status'', f_evaluationId := Some ''e1'',
                 f_status := Some ''completed'', f_progress := Some 1,
                 f_message := Some ''done''\<rparr>"

text \<open>An evaluation \<open>e1\<close> judged by the model, with a threshold entry in its definition.\<close>

definition demo_evaluation :: "jstring \<Rightarrow> rat option \<Rightarrow> evaluation" where
  "demo_evaluation st th =
     \<lparr>e_id = ''e1'', e_name = ''capital'', e_description = Some ''capital of France'',
      e_tool = Some ''chat'', e_input = Some ''What is the capital of France?'',
      e_url = None, e_target_url = None, e_timeout = Some 5000, e_tags = None,
      e_max_retries = None,
      e_validation = Some \<lparr>v_type = Some ''llm-judge'',
                           v_llm_judge = Some \<lparr>criteria = Some [''mentions Paris''],
                                                model = None\<rparr>,
                           v_threshold = th\<rparr>,
      e_status = st, e_lastResult = None\<rparr>"

text \<open>A client store that knows one client, \<open>base\<close> with secret \<open>s3cret\<close>, owning \<open>e1\<close>
  in the given status.\<close>

definition demo_clientManager :: "jstring \<Rightarrow> clientManager" where
  "demo_clientManager st =
     \<lparr>validateClient = (\<lambda>cid key.
         if cid = Some ''base'' \<and> key = Some ''s3cret''
         then \<lparr>valid = True, reason = None\<rparr>
         else \<lparr>valid = False, reason = Some ''Invalid credentials''\<rparr>),
      registerClient = (\<lambda>cid key caps.
         Inr \<lparr>clientName = Some ''Base'', evaluationsCount = Some 1\<rparr>),
      evaluations = (\<lambda>c. if c = ''base'' then [demo_evaluation st None] else [])\<rparr>"

text \<open>A connection object of the examples: id, whether registered as \<open>base\<close>, whether
  ready, and its pending calls.\<close>

definition demo_connection ::
    "string \<Rightarrow> bool \<Rightarrow> bool \<Rightarrow> (string \<times> pending_call) list \<Rightarrow> connection" where
  "demo_connection i reg rdy pending =
     \<lparr>conn_id = i,
      conn_ws = \<lparr>is_open = True, sent = [Welcome ''server-001'' ''1.0.0'' ''t0'']\<rparr>,
      conn_rpcClient = \<lparr>pendingRequests = pending, settled = []\<rparr>,
      connectedAt = ''t0'', remoteAddress = ''10.0.0.1'', registered = reg,
      clientId = (if reg then Some ''base'' else None), ready = rdy,
      conn_capabilities = None\<rparr>"

text \<open>A server with that one connection object at reference 0, under the given key.\<close>

definition demo_server :: "jstring \<Rightarrow> jstring \<Rightarrow> connection \<Rightarrow> server" where
  "demo_server st key c =
     \<lparr>connectedAgents = [key \<mapsto> 0], connections = [0 \<mapsto> c], next_ref = 1,
      clientManager = demo_clientManager st, logs = []\<rparr>"

definition demo_call :: pending_call where
  "demo_call =
     \<lparr>pc_method = ''evaluate'', pc_params = rpc_params (demo_evaluation None None),
      pc_timeoutMs = 5000\<rparr>"

text \<open>Two sockets connect, and both register as client \<open>base\<close>, one from tab \<open>t1\<close> and
  one from tab \<open>t2\<close>.\<close>

definition two_tabs :: server where
  "two_tabs =
     run (new_server (demo_clientManager None))
       [Connect ''conn-1'' ''10.0.0.1'' ''t0'',
        Connect ''conn-2'' ''10.0.0.1'' ''t0'',
        Message 0 (JsonObject (register_frame ''s3cret'' ''t1'')) ''t1'',
        Message 1 (JsonObject (register_frame ''s3cret'' ''t2'')) ''t2'']"

text \<open>A judge that gives every output the same score, and a response to judge.\<close>

definition demo_judge :: "rat \<Rightarrow> judge" where
  "demo_judge s = (\<lambda>task outputText crit mdl. Inr \<lparr>score = Some s, judge_text = ''ok''\<rparr>)"

definition demo_response :: response where
  "demo_response =
     \<lparr>resp_output = Some ''{text: Paris}'', resp_executionTime = Some 100,
      resp_raw = ''{output: {text: Paris}, executionTime: 100}''\<rparr>"

text \<open>An agent on socket client 7: whether registered and ready, and its heartbeat timer.\<close>

definition demo_agent :: "bool \<Rightarrow> nat option \<Rightarrow> agent" where
  "demo_agent up h =
     \<lparr>client = Some 7, a_clientId = ''base'', a_secretKey = Some ''wrong'',
      a_registered = up, a_ready = up, activeEvaluations = Map.empty,
      heartbeatInterval = h, effects = []\<rparr>"

text \<open>A registry with four tools: one returns after 100 ms, one after 9000 ms, one
  throws after 50 ms, one never settles.\<close>

definition demo_registry :: "string \<rightharpoonup> tool" where
  "demo_registry =
     [''chat'' \<mapsto> (\<lambda>input. Returns 100 ''Paris''),
      ''slow'' \<mapsto> (\<lambda>input. Returns 9000 ''Paris''),
      ''broken'' \<mapsto> (\<lambda>input. Throws 50 (ErrorObject ''boom'')),
      ''stuck'' \<mapsto> (\<lambda>input. Hangs)]"

text \<open>A client store that validates client \<open>base\<close> as above, and whose registration
  of a client throws.\<close>

definition failing_clientManager :: clientManager where
  "failing_clientManager =
     (demo_clientManager None)
       \<lparr>registerClient := (\<lambda>cid key caps. Inl ''Failed to load evaluations'')\<rparr>"



section \<open>Facts about the correlator and the handlers\<close>

lemma handleResponse_NotJson: "handleResponse rc NotJson = (False, rc)"
  by (simp add: handleResponse_def)

lemma handleResponse_False: "handleResponse rc m = (False, rc') \<Longrightarrow> rc' = rc"
  by (auto simp: handleResponse_def split: message.splits option.splits)

lemma handleRegistration_inv:
  "ready_implies_registered srv \<Longrightarrow> ready_implies_registered (handleRegistration srv r data)"
  by (auto simp: ready_implies_registered_def handleRegistration_def Let_def logger_def
      set_connection_def split: option.splits sum.splits if_splits)

lemma handleStatusUpdate_conns:
  "connections (handleStatusUpdate srv r data) = connections srv"
  by (auto simp: handleStatusUpdate_def Let_def logger_def split: option.splits)

lemma handleMessage_inv:
  "ready_implies_registered srv \<Longrightarrow> ready_implies_registered (handleMessage srv r m now)"
  unfolding handleMessage_def
  apply (auto split: option.splits prod.splits bool.splits message.splits
      simp: handleRegistration_inv)
  apply (auto simp: ready_implies_registered_def handleStatusUpdate_conns logger_def
      set_connection_def split: if_splits)
  done

lemma handleConnection_inv:
  "ready_implies_registered srv \<Longrightarrow>
   ready_implies_registered (fst (handleConnection srv i a n))"
  by (auto simp: ready_implies_registered_def handleConnection_def Let_def logger_def
      split: if_splits)

lemma handleDisconnection_inv:
  "ready_implies_registered srv \<Longrightarrow> ready_implies_registered (handleDisconnection srv r)"
  by (auto simp: ready_implies_registered_def handleDisconnection_def Let_def logger_def
      set_connection_def split: if_splits option.splits)

lemma run_inv: "ready_implies_registered srv \<Longrightarrow> ready_implies_registered (run srv es)"
proof (induction es arbitrary: srv)
  case Nil
  then show ?case by simp
next
  case (Cons e es)
  have "ready_implies_registered (step srv e)"
    using Cons.prems
    by (cases e) (simp_all add: handleConnection_inv handleMessage_inv handleDisconnection_inv)
  then show ?case using Cons.IH by simp
qed

lemma new_server_inv: "ready_implies_registered (new_server cm)"
  by (simp add: ready_implies_registered_def new_server_def)

lemma ready_before_register:
  assumes "connections srv r = Some c" and "\<not> registered c"
    and "f_type data = Some ''ready''"
  shows "(\<exists>c'. connections (handleMessage srv r (JsonObject data) now) r = Some c'
             \<and> ready c' = ready c \<and> registered c' = registered c)
       \<and> (\<not> fst (handleResponse (conn_rpcClient c) (JsonObject data)) \<longrightarrow>
            handleMessage srv r (JsonObject data) now =
              logger Warn ''Received ready signal from unregistered client'' srv)"
  using assms
  by (auto simp: handleMessage_def set_connection_def logger_def
      split: prod.splits bool.splits)

lemma find_update_status:
  "map_option e_status
     (find (\<lambda>e. e_id e = eid)
        (map (\<lambda>e. if e_id e = eid then e\<lparr>e_status := st, e_lastResult := lr e\<rparr> else e) xs))
   = map_option (\<lambda>_. st) (find (\<lambda>e. e_id e = eid) xs)"
  by (induction xs) auto

lemma evaluationStatus_update:
  "evaluationStatus (updateEvaluationStatus cm (Some k) (Some eid) st res) k eid =
     map_option (\<lambda>_. st) (evaluationStatus cm k eid)"
  by (simp add: evaluationStatus_def updateEvaluationStatus_def find_update_status
      option.map_comp comp_def)

text \<open>Unfolding the example data.\<close>

lemmas demo_defs =
  empty_frame_def ready_frame_def register_frame_def status_frame_def demo_evaluation_def
  demo_clientManager_def demo_connection_def demo_server_def demo_call_def rpc_params_def
  or_default_def

lemmas server_defs =
  handleMessage_def handleRegistration_def handleStatusUpdate_def handleDisconnection_def
  handleConnection_def handleResponse_def cleanup_def callMethod_def sendMessage_def
  set_connection_def logger_def new_server_def welcome_text_def truthy_def Let_def
  join_throws_def

section \<open>The claims\<close>

text \<open>
  C5. On every connection, \<open>ready\<close> becomes true only after \<open>registered\<close> has: the
  invariant "ready implies registered" holds of every connection object after any
  sequence of connects, inbound frames and disconnects from the server's start, it is
  preserved by every message-handling step, and a \<open>ready\<close> frame on a connection that is
  not registered leaves its \<open>ready\<close> and \<open>registered\<close> flags as they were; when the
  correlator does not consume the frame, all the handler does is log a warning.
\<close>

theorem ready_only_after_registered:
  "ready_implies_registered (run (new_server cm) es)
   \<and> (ready_implies_registered srv \<longrightarrow> ready_implies_registered (handleMessage srv r msg now))
   \<and> (connections srv r = Some c \<and> \<not> registered c \<and> f_type data = Some ''ready'' \<longrightarrow>
        (\<exists>c'. connections (handleMessage srv r (JsonObject data) now) r = Some c'
               \<and> ready c' = ready c \<and> registered c' = registered c)
        \<and> (\<not> fst (handleResponse (conn_rpcClient c) (JsonObject data)) \<longrightarrow>
             handleMessage srv r (JsonObject data) now =
               logger Warn ''Received ready signal from unregistered client'' srv))"
  using run_inv [OF new_server_inv] handleMessage_inv ready_before_register by blast

theorem ready_only_after_registered_witness:
  "ready_implies_registered
     (run (new_server (demo_clientManager None))
        [Connect ''conn-1'' ''10.0.0.1'' ''t0'', Message 0 (JsonObject ready_frame) ''t1''])
   \<and> map_option ready
       (connections
          (handleMessage
             (demo_server None (Some ''conn-1'') (demo_connection ''conn-1'' False False []))
             0 (JsonObject ready_frame) ''t1'') 0) = Some False
   \<and> handleMessage
       (demo_server None (Some ''conn-1'') (demo_connection ''conn-1'' False False []))
       0 (JsonObject ready_frame) ''t1'' =
       logger Warn ''Received ready signal from unregistered client''
         (demo_server None (Some ''conn-1'') (demo_connection ''conn-1'' False False []))"
proof -
  let ?S = "demo_server None (Some ''conn-1'') (demo_connection ''conn-1'' False False [])"
  let ?C = "demo_connection ''conn-1'' False False []"
  note inst = ready_only_after_registered
    [where cm = "demo_clientManager None"
       and es = "[Connect ''conn-1'' ''10.0.0.1'' ''t0'',
                  Message 0 (JsonObject ready_frame) ''t1'']"
       and srv = ?S and r = 0 and now = "''t1''" and c = ?C and data = ready_frame]
  have pre: "connections ?S 0 = Some ?C \<and> \<not> registered ?C
             \<and> f_type ready_frame = Some ''ready''"
    by (simp add: demo_server_def demo_connection_def ready_frame_def empty_frame_def)
  have unconsumed: "\<not> fst (handleResponse (conn_rpcClient ?C) (JsonObject ready_frame))"
    by (simp add: handleResponse_def demo_connection_def ready_frame_def empty_frame_def)
  have logged: "handleMessage ?S 0 (JsonObject ready_frame) ''t1'' =
      logger Warn ''Received ready signal from unregistered client'' ?S"
    using inst pre unconsumed by blast
  have "map_option ready (connections (handleMessage ?S 0 (JsonObject ready_frame) ''t1'') 0)
        = Some False"
    unfolding logged by (simp add: logger_def demo_server_def demo_connection_def)
  then show ?thesis using inst logged by blast
qed

text \<open>
  C6. The message handler offers every inbound frame to the RPC correlator first, and
  a frame the correlator consumes changes nothing but that connection's correlator: no
  control-frame handling follows. A frame it does not consume is dispatched on its
  \<open>type\<close> tag. A frame that is not valid JSON is logged and dropped: the connection
  objects (so the socket too) and the directory are as before.
\<close>

theorem correlator_first_then_control_frames:
  assumes "connections srv r = Some c"
  shows "(handleResponse (conn_rpcClient c) msg = (True, rc) \<longrightarrow>
            handleMessage srv r msg now =
              srv\<lparr>connections := (connections srv)(r \<mapsto> c\<lparr>conn_rpcClient := rc\<rparr>)\<rparr>)
       \<and> (\<not> fst (handleResponse (conn_rpcClient c) (JsonObject data)) \<longrightarrow>
            handleMessage srv r (JsonObject data) now =
              (if f_type data = Some ''register'' then handleRegistration srv r data
               else if f_type data = Some ''ping'' then
                 set_connection r (c\<lparr>conn_ws := sendMessage (conn_ws c) (Pong now)\<rparr>) srv
               else if f_type data = Some ''ready'' then
                 (if \<not> registered c then
                    logger Warn ''Received ready signal from unregistered client'' srv
                  else logger Info ''Client ready for evaluations''
                         (set_connection r (c\<lparr>ready := True\<rparr>) srv))
               else if f_type data = Some ''status'' then handleStatusUpdate srv r data
               else logger Warn ''Unknown message type'' srv))
       \<and> handleMessage srv r NotJson now =
            srv\<lparr>logs := logs srv @ [(Warn, ''Failed to parse message'')]\<rparr>
       \<and> connections (handleMessage srv r NotJson now) = connections srv
       \<and> connectedAgents (handleMessage srv r NotJson now) = connectedAgents srv"
  using assms
  by (auto simp: handleMessage_def set_connection_def logger_def handleResponse_NotJson
      split: prod.splits bool.splits)

theorem correlator_first_then_control_frames_witness:
  "handleMessage
     (demo_server None (Some ''conn-1'')
        (demo_connection ''conn-1'' False False [(''rpc-1'', demo_call)]))
     0 (JsonObject ((register_frame ''s3cret'' ''t1'')\<lparr>f_id := Some ''rpc-1''\<rparr>)) ''t1'' =
   (demo_server None (Some ''conn-1'')
      (demo_connection ''conn-1'' False False [(''rpc-1'', demo_call)]))
     \<lparr>connections :=
        [0 \<mapsto> (demo_connection ''conn-1'' False False [(''rpc-1'', demo_call)])
                 \<lparr>conn_rpcClient :=
                    \<lparr>pendingRequests = [], settled = [(''rpc-1'', Resolved None)]\<rparr>\<rparr>]\<rparr>
   \<and> handleMessage
       (demo_server None (Some ''conn-1'')
          (demo_connection ''conn-1'' False False [(''rpc-1'', demo_call)]))
       0 (JsonObject (register_frame ''s3cret'' ''t1'')) ''t1'' =
     handleRegistration
       (demo_server None (Some ''conn-1'')
          (demo_connection ''conn-1'' False False [(''rpc-1'', demo_call)]))
       0 (register_frame ''s3cret'' ''t1'')
   \<and> handleMessage
       (demo_server None (Some ''conn-1'')
          (demo_connection ''conn-1'' False False [(''rpc-1'', demo_call)]))
       0 NotJson ''t1'' =
     (demo_server None (Some ''conn-1'')
        (demo_connection ''conn-1'' False False [(''rpc-1'', demo_call)]))
       \<lparr>logs := [(Warn, ''Failed to parse message'')]\<rparr>"
  using correlator_first_then_control_frames
    [where srv = "demo_server None (Some ''conn-1'')
                    (demo_connection ''conn-1'' False False [(''rpc-1'', demo_call)])"
       and r = 0
       and c = "demo_connection ''conn-1'' False False [(''rpc-1'', demo_call)]"
       and msg = "JsonObject ((register_frame ''s3cret'' ''t1'')\<lparr>f_id := Some ''rpc-1''\<rparr>)"
       and rc = "\<lparr>pendingRequests = [], settled = [(''rpc-1'', Resolved None)]\<rparr>"
       and data = "register_frame ''s3cret'' ''t1''" and now = "''t1''"]
  by (simp add: demo_defs handleResponse_def)

text \<open>
  C7, as the claim states it, fails: the pair (\<open>base\<close>, \<open>s3cret\<close>) validates against the
  client store, the store's registration of the client then throws, and the one reply
  to the \<open>register\<close> frame is a \<open>registration_ack\<close> of status \<open>rejected\<close>; the connection
  is not registered.
\<close>

theorem registration_throws_counterexample:
  "valid (validateClient failing_clientManager (Some ''base'') (Some ''s3cret''))
   \<and> map_option (\<lambda>c. (registered c, sent (conn_ws c)))
       (connections
          (handleRegistration
             ((demo_server None (Some ''conn-1'') (demo_connection ''conn-1'' False False []))
                \<lparr>clientManager := failing_clientManager\<rparr>)
             0 (register_frame ''s3cret'' ''t1'')) 0) =
     Some (False,
           [Welcome ''server-001'' ''1.0.0'' ''t0'',
            RegistrationAck
              \<lparr>ack_clientId = Some ''base'', ack_status = ''rejected'',
               ack_reason = Some ''Failed to load evaluations'', ack_message = None,
               ack_evaluationsCount = None\<rparr>])"
  by (simp add: failing_clientManager_def demo_defs server_defs)

text \<open>
  C7, amended. On an open socket, a \<open>register\<close> frame whose credentials validate, whose
  registration the client store then carries out, and whose \<open>capabilities.tools\<close> is
  absent or an array, is answered with a \<open>registration_ack\<close> of status \<open>accepted\<close>
  carrying the store's evaluations count. One whose credentials validate but whose
  registration throws in the client store is answered with status \<open>rejected\<close> and the
  error's message as the reason; one whose credentials do not validate is answered
  with status \<open>rejected\<close> and the validation's reason. In both rejected cases the socket
  is still open and the connection object, the directory and the client store are as
  before, so the same connection can register again: a \<open>register\<close> frame with valid
  credentials that follows on it is accepted.
\<close>

theorem registration_ack_reply:
  assumes "connections srv r = Some c" and "is_open (conn_ws c)"
  shows "(valid (validateClient (clientManager srv) (f_clientId data) (f_secretKey data)) \<and>
          registerClient (clientManager srv) (f_clientId data) (f_secretKey data)
            (f_capabilities data) = Inr result \<and>
          \<not> join_throws (f_capabilities data) \<longrightarrow>
            (\<exists>c'. connections (handleRegistration srv r data) r = Some c'
               \<and> sent (conn_ws c') = sent (conn_ws c) @
                    [RegistrationAck
                       \<lparr>ack_clientId = f_clientId data, ack_status = ''accepted'',
                        ack_reason = None,
                        ack_message = Some (welcome_text (clientName result)),
                        ack_evaluationsCount = evaluationsCount result\<rparr>]))
       \<and> (valid (validateClient (clientManager srv) (f_clientId data) (f_secretKey data)) \<and>
          registerClient (clientManager srv) (f_clientId data) (f_secretKey data)
            (f_capabilities data) = Inl err \<longrightarrow>
            (\<exists>c'. connections (handleRegistration srv r data) r = Some c'
               \<and> sent (conn_ws c') = sent (conn_ws c) @
                    [RegistrationAck
                       \<lparr>ack_clientId = f_clientId data, ack_status = ''rejected'',
                        ack_reason = Some err,
                        ack_message = None, ack_evaluationsCount = None\<rparr>]
               \<and> is_open (conn_ws c')
               \<and> c' = c\<lparr>conn_ws := conn_ws c'\<rparr>)
            \<and> connectedAgents (handleRegistration srv r data) = connectedAgents srv
            \<and> clientManager (handleRegistration srv r data) = clientManager srv)
       \<and> (\<not> valid (validateClient (clientManager srv) (f_clientId data) (f_secretKey data)) \<longrightarrow>
            (\<exists>c'. connections (handleRegistration srv r data) r = Some c'
               \<and> sent (conn_ws c') = sent (conn_ws c) @
                    [RegistrationAck
                       \<lparr>ack_clientId = f_clientId data, ack_status = ''rejected'',
                        ack_reason = reason (validateClient (clientManager srv)
                                               (f_clientId data) (f_secretKey data)),
                        ack_message = None, ack_evaluationsCount = None\<rparr>]
               \<and> is_open (conn_ws c')
               \<and> c' = c\<lparr>conn_ws := conn_ws c'\<rparr>)
            \<and> connectedAgents (handleRegistration srv r data) = connectedAgents srv
            \<and> clientManager (handleRegistration srv r data) = clientManager srv)
       \<and> (\<not> valid (validateClient (clientManager srv) (f_clientId data) (f_secretKey data)) \<and>
          valid (validateClient (clientManager srv) (f_clientId retry) (f_secretKey retry)) \<and>
          registerClient (clientManager srv) (f_clientId retry) (f_secretKey retry)
            (f_capabilities retry) = Inr result \<and>
          \<not> join_throws (f_capabilities retry) \<longrightarrow>
            (\<exists>c'. connections (handleRegistration (handleRegistration srv r data) r retry) r
                     = Some c'
               \<and> registered c'
               \<and> sent (conn_ws c') = sent (conn_ws c) @
                    [RegistrationAck
                       \<lparr>ack_clientId = f_clientId data, ack_status = ''rejected'',
                        ack_reason = reason (validateClient (clientManager srv)
                                               (f_clientId data) (f_secretKey data)),
                        ack_message = None, ack_evaluationsCount = None\<rparr>,
                     RegistrationAck
                       \<lparr>ack_clientId = f_clientId retry, ack_status = ''accepted'',
                        ack_reason = None,
                        ack_message = Some (welcome_text (clientName result)),
                        ack_evaluationsCount = evaluationsCount result\<rparr>]))"
  using assms
  by (auto simp: handleRegistration_def Let_def set_connection_def logger_def sendMessage_def)

theorem registration_ack_reply_witness:
  "map_option (\<lambda>c. sent (conn_ws c))
     (connections
        (handleRegistration
           (demo_server None (Some ''conn-1'') (demo_connection ''conn-1'' False False []))
           0 (register_frame ''s3cret'' ''t1'')) 0) =
   Some [Welcome ''server-001'' ''1.0.0'' ''t0'',
         RegistrationAck
           \<lparr>ack_clientId = Some ''base'', ack_status = ''accepted'', ack_reason = None,
            ack_message = Some ''Welcome Base'', ack_evaluationsCount = Some 1\<rparr>]
   \<and> map_option (\<lambda>c. (is_open (conn_ws c), sent (conn_ws c)))
       (connections
          (handleRegistration
             (demo_server None (Some ''conn-1'') (demo_connection ''conn-1'' False False []))
             0 (register_frame ''wrong'' ''t1'')) 0) =
     Some (True,
           [Welcome ''server-001'' ''1.0.0'' ''t0'',
            RegistrationAck
              \<lparr>ack_clientId = Some ''base'', ack_status = ''rejected'',
               ack_reason = Some ''Invalid credentials'', ack_message = None,
               ack_evaluationsCount = None\<rparr>])
   \<and> map_option (\<lambda>c. (registered c, length (sent (conn_ws c))))
       (connections
          (handleRegistration
             (handleRegistration
                (demo_server None (Some ''conn-1'')
                   (demo_connection ''conn-1'' False False []))
                0 (register_frame ''wrong'' ''t1''))
             0 (register_frame ''s3cret'' ''t1'')) 0) = Some (True, 3)
   \<and> map_option (\<lambda>c. (is_open (conn_ws c), length (sent (conn_ws c))))
       (connections
          (handleRegistration
             ((demo_server None (Some ''conn-1'')
                 (demo_connection ''conn-1'' False False []))
                \<lparr>clientManager := failing_clientManager\<rparr>)
             0 (register_frame ''s3cret'' ''t1'')) 0) = Some (True, 2)"
  using registration_ack_reply
    [where srv = "demo_server None (Some ''conn-1'')
                    (demo_connection ''conn-1'' False False [])"
       and r = 0 and c = "demo_connection ''conn-1'' False False []"
       and data = "register_frame ''s3cret'' ''t1''"
       and result = "\<lparr>clientName = Some ''Base'', evaluationsCount = Some 1\<rparr>"]
    registration_ack_reply
    [where srv = "demo_server None (Some ''conn-1'')
                    (demo_connection ''conn-1'' False False [])"
       and r = 0 and c = "demo_connection ''conn-1'' False False []"
       and data = "register_frame ''wrong'' ''t1''"
       and retry = "register_frame ''s3cret'' ''t1''"
       and result = "\<lparr>clientName = Some ''Base'', evaluationsCount = Some 1\<rparr>"]
    registration_ack_reply
    [where srv = "(demo_server None (Some ''conn-1'')
                     (demo_connection ''conn-1'' False False []))
                    \<lparr>clientManager := failing_clientManager\<rparr>"
       and r = 0 and c = "demo_connection ''conn-1'' False False []"
       and data = "register_frame ''s3cret'' ''t1''"
       and err = "''Failed to load evaluations''"]
  by (auto simp: demo_defs welcome_text_def join_throws_def failing_clientManager_def)

text \<open>
  C1, as the claim states it, fails: when two sockets register as the same client from
  two tabs, there is no entry under either composite key, the one entry under the bare
  client id refers to the connection that registered last, and the connection that
  registered first, still registered, has lost its entry.
\<close>

theorem composite_key_counterexample:
  "connectedAgents two_tabs (Some ''base:t1'') = None
   \<and> connectedAgents two_tabs (Some ''base:t2'') = None
   \<and> connectedAgents two_tabs (Some ''base'') = Some 1
   \<and> dom (connectedAgents two_tabs) = {Some ''base''}
   \<and> map_option (\<lambda>c. (registered c, map_option tabId (conn_capabilities c)))
       (connections two_tabs 0) = Some (True, Some (Some ''t1''))"
  by (simp add: two_tabs_def demo_defs server_defs)

text \<open>
  C1, amended. For every connection whose \<open>register\<close> frame passes credential
  validation (and whose registration the client store carries out), the handler removes
  the entry under the transient connection id and stores the connection under the
  frame's \<open>clientId\<close> alone, whatever \<open>capabilities.tabId\<close> is, and marks the connection
  registered under that client id.
\<close>

theorem registration_keyed_by_clientId:
  assumes "connections srv r = Some c"
    and "valid (validateClient (clientManager srv) (f_clientId data) (f_secretKey data))"
    and "registerClient (clientManager srv) (f_clientId data) (f_secretKey data)
           (f_capabilities data) = Inr result"
  shows "connectedAgents (handleRegistration srv r data) =
           ((connectedAgents srv)(Some (conn_id c) := None))(f_clientId data \<mapsto> r)
       \<and> (\<exists>c'. connections (handleRegistration srv r data) r = Some c' \<and> registered c'
                \<and> clientId c' = f_clientId data)"
  using assms
  by (auto simp: handleRegistration_def Let_def set_connection_def logger_def)

theorem registration_keyed_by_clientId_witness:
  "connectedAgents
     (handleRegistration
        (demo_server None (Some ''conn-1'') (demo_connection ''conn-1'' False False []))
        0 (register_frame ''s3cret'' ''t1'')) = [Some ''base'' \<mapsto> 0]"
proof -
  have "[Some ''conn-1'' \<mapsto> 0::nat](Some ''conn-1'' := None, Some ''base'' \<mapsto> 0)
        = [Some ''base'' \<mapsto> 0]"
    by (rule ext) simp
  then show ?thesis
    using registration_keyed_by_clientId
      [where srv = "demo_server None (Some ''conn-1'')
                      (demo_connection ''conn-1'' False False [])"
         and r = 0 and c = "demo_connection ''conn-1'' False False []"
         and data = "register_frame ''s3cret'' ''t1''"
         and result = "\<lparr>clientName = Some ''Base'', evaluationsCount = Some 1\<rparr>"]
    by (simp add: demo_defs)
qed

text \<open>
  C8. Handling the disconnect of a connection with any number of outstanding RPC calls
  fails every one of them with the connection-closed error and leaves none pending,
  and removes the directory entry under the connection's client id if it is registered
  (the code asks for a non-empty client id there), else under its connection id: a
  lookup of that key afterwards finds no connection. The other keys are as before.
\<close>

theorem disconnect_fails_pending_and_removes_entry:
  assumes "connections srv r = Some c"
    and "registered c \<longrightarrow> truthy (clientId c)"
  shows "(\<exists>c'. connections (handleDisconnection srv r) r = Some c'
            \<and> pendingRequests (conn_rpcClient c') = []
            \<and> settled (conn_rpcClient c') = settled (conn_rpcClient c) @
                 map (\<lambda>e. (fst e, Rejected connection_closed))
                   (pendingRequests (conn_rpcClient c)))
       \<and> connectedAgents (handleDisconnection srv r)
            (if registered c then clientId c else Some (conn_id c)) = None
       \<and> (\<forall>k. k \<noteq> (if registered c then clientId c else Some (conn_id c)) \<longrightarrow>
             connectedAgents (handleDisconnection srv r) k = connectedAgents srv k)"
  using assms
  by (auto simp: handleDisconnection_def Let_def set_connection_def logger_def cleanup_def)

theorem disconnect_fails_pending_and_removes_entry_witness:
  "map_option (\<lambda>c. (pendingRequests (conn_rpcClient c), settled (conn_rpcClient c)))
     (connections
        (handleDisconnection
           (demo_server None (Some ''base'')
              (demo_connection ''conn-1'' True True
                 [(''rpc-1'', demo_call), (''rpc-2'', demo_call)])) 0) 0) =
   Some ([], [(''rpc-1'', Rejected ''Connection closed''),
              (''rpc-2'', Rejected ''Connection closed'')])
   \<and> connectedAgents
       (handleDisconnection
          (demo_server None (Some ''base'')
             (demo_connection ''conn-1'' True True
                [(''rpc-1'', demo_call), (''rpc-2'', demo_call)])) 0) (Some ''base'') = None
   \<and> connectedAgents
       (handleDisconnection
          (demo_server None (Some ''conn-1'') (demo_connection ''conn-1'' False False []))
          0) (Some ''conn-1'') = None"
  using disconnect_fails_pending_and_removes_entry
    [where srv = "demo_server None (Some ''base'')
                    (demo_connection ''conn-1'' True True
                       [(''rpc-1'', demo_call), (''rpc-2'', demo_call)])"
       and r = 0
       and c = "demo_connection ''conn-1'' True True
                  [(''rpc-1'', demo_call), (''rpc-2'', demo_call)]"]
    disconnect_fails_pending_and_removes_entry
    [where srv = "demo_server None (Some ''conn-1'')
                    (demo_connection ''conn-1'' False False [])"
       and r = 0 and c = "demo_connection ''conn-1'' False False []"]
  by (auto simp: demo_server_def demo_connection_def truthy_def connection_closed_def)

text \<open>
  C2, as the claim states it, fails: while evaluation \<open>e1\<close> of client \<open>base\<close> is running,
  a \<open>status\<close> frame from the registered connection that reports it completed sets the
  stored status to \<open>completed\<close>.
\<close>

theorem status_frame_counterexample:
  "evaluationStatus
     (clientManager
        (demo_server (Some ''running'') (Some ''base'')
           (demo_connection ''conn-1'' True True [(''rpc-1'', demo_call)])))
     ''base'' ''e1'' = Some (Some ''running'')
   \<and> evaluationStatus
       (clientManager
          (handleMessage
             (demo_server (Some ''running'') (Some ''base'')
                (demo_connection ''conn-1'' True True [(''rpc-1'', demo_call)]))
             0 (JsonObject status_frame) ''t1''))
       ''base'' ''e1'' = Some (Some ''completed'')"
  by (simp add: demo_defs server_defs evaluationStatus_def updateEvaluationStatus_def)

text \<open>
  C2, amended. For every inbound \<open>status\<close> frame from a registered connection, the
  handler passes the frame's status to the client manager's status update for the
  connection's client and the frame's evaluation: the stored status of that evaluation
  becomes whatever the frame carries, terminal values included. The frame's progress
  and message are logged only: they do not enter the state. A \<open>status\<close> frame from a
  connection that is not registered changes nothing.
\<close>

theorem status_frame_sets_stored_status:
  assumes "connections srv r = Some c"
  shows "(\<not> registered c \<longrightarrow> handleStatusUpdate srv r data = srv)
       \<and> (registered c \<and> clientId c = Some k \<and> f_evaluationId data = Some eid \<longrightarrow>
            evaluationStatus (clientManager (handleStatusUpdate srv r data)) k eid =
              map_option (\<lambda>_. f_status data) (evaluationStatus (clientManager srv) k eid))
       \<and> handleStatusUpdate srv r (data\<lparr>f_progress := p, f_message := m\<rparr>) =
           handleStatusUpdate srv r data"
  using assms
  by (auto simp: handleStatusUpdate_def Let_def logger_def evaluationStatus_update)

theorem status_frame_sets_stored_status_witness:
  "evaluationStatus
     (clientManager
        (handleStatusUpdate
           (demo_server (Some ''running'') (Some ''base'')
              (demo_connection ''conn-1'' True True [(''rpc-1'', demo_call)]))
           0 status_frame))
     ''base'' ''e1'' = Some (Some ''completed'')
   \<and> handleStatusUpdate
       (demo_server (Some ''running'') (Some ''conn-1'')
          (demo_connection ''conn-1'' False False []))
       0 status_frame =
     demo_server (Some ''running'') (Some ''conn-1'')
       (demo_connection ''conn-1'' False False [])"
  using status_frame_sets_stored_status
    [where srv = "demo_server (Some ''running'') (Some ''base'')
                    (demo_connection ''conn-1'' True True [(''rpc-1'', demo_call)])"
       and r = 0
       and c = "demo_connection ''conn-1'' True True [(''rpc-1'', demo_call)]"
       and data = status_frame and k = "''base''" and eid = "''e1''"]
    status_frame_sets_stored_status
    [where srv = "demo_server (Some ''running'') (Some ''conn-1'')
                    (demo_connection ''conn-1'' False False [])"
       and r = 0 and c = "demo_connection ''conn-1'' False False []"
       and data = status_frame]
  by (simp add: demo_defs evaluationStatus_def)

text \<open>
  C3, as the claim states it, fails: called with a connection that is registered but
  not ready, the dispatch sets the stored status of the evaluation to \<open>running\<close>, enters
  the RPC call in the pending map and puts the request frame on the socket.
\<close>

theorem dispatch_not_ready_counterexample:
  "map_option ready
     (connections
        (demo_server (Some ''pending'') (Some ''base'')
           (demo_connection ''conn-1'' True False [])) 0) = Some False
   \<and> evaluationStatus
       (clientManager
          (executeEvaluation_begin
             (demo_server (Some ''pending'') (Some ''base'')
                (demo_connection ''conn-1'' True False []))
             0 (demo_evaluation (Some ''pending'') None) ''rpc-1''))
       ''base'' ''e1'' = Some (Some ''running'')
   \<and> map_option (\<lambda>c. (map fst (pendingRequests (conn_rpcClient c)), sent (conn_ws c)))
       (connections
          (executeEvaluation_begin
             (demo_server (Some ''pending'') (Some ''base'')
                (demo_connection ''conn-1'' True False []))
             0 (demo_evaluation (Some ''pending'') None) ''rpc-1'') 0) =
     Some ([''rpc-1''],
           [Welcome ''server-001'' ''1.0.0'' ''t0'',
            RpcRequest ''rpc-1'' ''evaluate'' (rpc_params (demo_evaluation None None))])"
  by (simp add: demo_defs server_defs executeEvaluation_begin_def evaluationStatus_def
      updateEvaluationStatus_def)

text \<open>
  C3, amended. \<open>executeEvaluation(connection, evaluation)\<close> does not look at
  \<open>connection.ready\<close>: for every connection, ready or not, it sets the evaluation's
  status to \<open>running\<close> and issues the RPC call, and leaves the flag as it is. Readiness is checked by its callers before they dispatch:
  \<open>processClientEvaluations\<close> returns without dispatching when the connection is not
  ready.
\<close>

theorem dispatch_ready_checked_by_caller:
  assumes "connections srv r = Some c"
  shows "clientManager (executeEvaluation_begin srv r ev callId) =
           updateEvaluationStatus (clientManager srv) (clientId c) (Some (e_id ev))
             (Some ''running'') None
       \<and> (\<exists>c'. connections (executeEvaluation_begin srv r ev callId) r = Some c'
             \<and> pendingRequests (conn_rpcClient c') = pendingRequests (conn_rpcClient c) @
                  [(callId, \<lparr>pc_method = ''evaluate'', pc_params = rpc_params ev,
                             pc_timeoutMs = or_default (e_timeout ev) 45000\<rparr>)]
             \<and> conn_ws c' = sendMessage (conn_ws c) (RpcRequest callId ''evaluate'' (rpc_params ev))
             \<and> ready c' = ready c)
       \<and> (connectedAgents srv cid = Some r \<and> \<not> ready c \<longrightarrow>
            processClientEvaluations srv cid nextEvaluation callId = srv)"
  using assms
  by (auto simp: executeEvaluation_begin_def processClientEvaluations_def callMethod_def
      set_connection_def logger_def Let_def)

theorem dispatch_ready_checked_by_caller_witness:
  "processClientEvaluations
     (demo_server (Some ''pending'') (Some ''base'') (demo_connection ''conn-1'' True False []))
     (Some ''base'') (Some (demo_evaluation (Some ''pending'') None)) ''rpc-1'' =
   demo_server (Some ''pending'') (Some ''base'') (demo_connection ''conn-1'' True False [])
   \<and> clientManager
       (executeEvaluation_begin
          (demo_server (Some ''pending'') (Some ''base'')
             (demo_connection ''conn-1'' True False []))
          0 (demo_evaluation (Some ''pending'') None) ''rpc-1'') =
     updateEvaluationStatus (demo_clientManager (Some ''pending'')) (Some ''base'')
       (Some ''e1'') (Some ''running'') None"
  using dispatch_ready_checked_by_caller
    [where srv = "demo_server (Some ''pending'') (Some ''base'')
                    (demo_connection ''conn-1'' True False [])"
       and r = 0 and c = "demo_connection ''conn-1'' True False []"
       and cid = "Some ''base''" and ev = "demo_evaluation (Some ''pending'') None"
       and callId = "''rpc-1''"
       and nextEvaluation = "Some (demo_evaluation (Some ''pending'') None)"]
  by (simp add: demo_server_def demo_connection_def demo_evaluation_def)

text \<open>
  The verdict of \<open>validateResponse\<close> for a judged evaluation whose judge call succeeds:
  the score is compared with 0.7, and no entry of the evaluation's definition enters
  the comparison.
\<close>

lemma validateResponse_passed:
  assumes "e_validation ev = Some v"
    and "v_type v = Some ''llm-judge'' \<or> v_type v = Some ''hybrid''"
    and "v_llm_judge v = Some cfg"
    and "evaluator (e_name ev @ '' - '' @ (case e_description ev of None \<Rightarrow> [] | Some d \<Rightarrow> d))
           (case resp_output resp of None \<Rightarrow> resp_raw resp | Some t \<Rightarrow> t)
           (case criteria cfg of None \<Rightarrow> [] | Some cs \<Rightarrow> cs) (model cfg) = Inr jr"
  shows "validateResponse evaluator resp ev =
           Inr (Some \<lparr>vr_type = ''llm-judge'', vr_result = jr,
                      vr_passed = (case score jr of None \<Rightarrow> False | Some s \<Rightarrow> s \<ge> 7 / 10)\<rparr>)"
  using assms by (auto simp: validateResponse_def Let_def)

lemma validateResponse_default_boundary:
  "validateResponse (demo_judge (7 / 10)) demo_response (demo_evaluation None None) =
     Inr (Some \<lparr>vr_type = ''llm-judge'',
                vr_result = \<lparr>score = Some (7 / 10), judge_text = ''ok''\<rparr>,
                vr_passed = True\<rparr>)
   \<and> validateResponse (demo_judge (69 / 100)) demo_response (demo_evaluation None None) =
     Inr (Some \<lparr>vr_type = ''llm-judge'',
                vr_result = \<lparr>score = Some (69 / 100), judge_text = ''ok''\<rparr>,
                vr_passed = False\<rparr>)"
  by (simp add: validateResponse_def demo_judge_def demo_evaluation_def demo_response_def)

text \<open>
  C4. The code at an evaluation whose definition gives the threshold 0.5, when the judge
  scores the output 0.6: the stored verdict is \<open>passed = false\<close>, where the claim's
  \<open>passed = (s >= threshold)\<close> is true. The comparison is with the constant 0.7 whatever
  the definition says.
\<close>

theorem configured_threshold_not_read:
  "validateResponse (demo_judge (6 / 10)) demo_response
     (demo_evaluation None (Some (5 / 10))) =
   Inr (Some \<lparr>vr_type = ''llm-judge'',
              vr_result = \<lparr>score = Some (6 / 10), judge_text = ''ok''\<rparr>,
              vr_passed = False\<rparr>)"
  by (simp add: validateResponse_def demo_judge_def demo_evaluation_def demo_response_def)

section \<open>Facts about the agent runtime\<close>

lemma rpc_responses_append:
  "rpc_responses (xs @ ys) = rpc_responses xs @ rpc_responses ys"
  by (induction xs rule: rpc_responses.induct) simp_all

lemma registrations_on_append:
  "registrations_on s (xs @ ys) = registrations_on s xs @ registrations_on s ys"
  by (induction s xs rule: registrations_on.induct) simp_all

lemma sendStatus_client [simp]: "client (sendStatus a i st p m) = client a"
  by (simp add: sendStatus_def effect_def split: option.splits)

lemma sendStatus_responses [simp]:
  "rpc_responses (effects (sendStatus a i st p m)) = rpc_responses (effects a)"
  by (simp add: sendStatus_def effect_def rpc_responses_append split: option.splits)

lemma sendStatus_registrations [simp]:
  "registrations_on s (effects (sendStatus a i st p m)) = registrations_on s (effects a)"
  by (simp add: sendStatus_def effect_def registrations_on_append split: option.splits)








lemma agent_handleMessage_no_client:
  assumes "client a = None"
  shows "client (agent_handleMessage registry a m) = None
       \<and> registrations_on s (effects (agent_handleMessage registry a m)) =
           registrations_on s (effects a)"
proof (cases m)
  case WelcomeMessage
  then show ?thesis using assms by (simp add: register_def)
next
  case (RegistrationAckMessage status h)
  then show ?thesis
    using assms
    by (auto simp: handleRegistrationAck_def startHeartbeat_def sendReady_def disconnect_def
        effect_def Let_def registrations_on_append split: option.splits)
next
  case (EvaluationRequest req t0)
  then show ?thesis
    using assms
    by (auto simp: handleEvaluationRequest_begin_def evaluation_request_failed_def
        send_if_client_def Let_def split: option.splits)
next
  case (ToolSettled req outcome d)
  then show ?thesis
    using assms
    by (auto simp: handleEvaluationRequest_settle_def evaluation_request_failed_def
        send_if_client_def Let_def split: sum.splits)
next
  case DisconnectCalled
  then show ?thesis
    using assms
    by (auto simp: disconnect_def effect_def Let_def registrations_on_append
        split: option.splits)
next
  case PongMessage
  then show ?thesis using assms by simp
next
  case UnknownMessage
  then show ?thesis using assms by simp
qed

lemma agent_handleMessages_no_client:
  "client a = None \<Longrightarrow>
   registrations_on s (effects (agent_handleMessages registry a ms)) =
     registrations_on s (effects a)"
proof (induction ms arbitrary: a)
  case Nil
  then show ?case by simp
next
  case (Cons m ms)
  then show ?case using agent_handleMessage_no_client [of a registry m s] by simp
qed

lemma disconnect_state:
  "client (disconnect a) = None \<and> \<not> a_registered (disconnect a) \<and> \<not> a_ready (disconnect a)
   \<and> heartbeatInterval (disconnect a) = None \<and> activeEvaluations (disconnect a) = Map.empty"
  by (simp add: disconnect_def effect_def Let_def split: option.splits)

lemma disconnect_effects:
  "effects (disconnect a) =
     effects a
     @ (case heartbeatInterval a of None \<Rightarrow> [] | Some h \<Rightarrow> [IntervalCleared h])
     @ (case client a of None \<Rightarrow> [] | Some s \<Rightarrow> [Disconnected s])"
  by (simp add: disconnect_def effect_def Let_def split: option.splits)

text \<open>
  C10. When the agent receives a \<open>registration_ack\<close> whose status is not \<open>accepted\<close>, it
  stops its heartbeat timer, disconnects its socket client and drops it, and clears
  its session state: not registered, not ready, no active evaluation. Whatever
  messages are handled afterwards, no further \<open>register\<close> frame is sent on any socket
  client: it does not retry on the socket the server left open.
\<close>

theorem rejected_ack_disconnects:
  assumes "status \<noteq> ''accepted''"
  shows "client (handleRegistrationAck a status h) = None
       \<and> \<not> a_registered (handleRegistrationAck a status h)
       \<and> \<not> a_ready (handleRegistrationAck a status h)
       \<and> heartbeatInterval (handleRegistrationAck a status h) = None
       \<and> activeEvaluations (handleRegistrationAck a status h) = Map.empty
       \<and> effects (handleRegistrationAck a status h) =
           effects a
           @ (case heartbeatInterval a of None \<Rightarrow> [] | Some i \<Rightarrow> [IntervalCleared i])
           @ (case client a of None \<Rightarrow> [] | Some s \<Rightarrow> [Disconnected s])
       \<and> registrations_on s
           (effects (agent_handleMessages registry (handleRegistrationAck a status h) ms)) =
           registrations_on s (effects a)"
proof -
  have eq: "handleRegistrationAck a status h = disconnect a"
    using assms by (simp add: handleRegistrationAck_def)
  have "registrations_on s (effects (disconnect a)) = registrations_on s (effects a)"
    by (simp add: disconnect_effects registrations_on_append split: option.splits)
  then show ?thesis
    unfolding eq
    using disconnect_state [of a] disconnect_effects [of a]
      agent_handleMessages_no_client [of "disconnect a" s registry ms]
    by simp
qed

theorem rejected_ack_disconnects_witness:
  "client (handleRegistrationAck (demo_agent True (Some 3)) ''rejected'' 4) = None
   \<and> effects (handleRegistrationAck (demo_agent True (Some 3)) ''rejected'' 4) =
       [IntervalCleared 3, Disconnected 7]
   \<and> registrations_on 7
       (effects
          (agent_handleMessages demo_registry
             (handleRegistrationAck (demo_agent True (Some 3)) ''rejected'' 4)
             [WelcomeMessage, RegistrationAckMessage ''accepted'' 5])) = []"
  using rejected_ack_disconnects
    [where status = "''rejected''" and a = "demo_agent True (Some 3)" and h = 4 and s = 7
       and registry = demo_registry
       and ms = "[WelcomeMessage, RegistrationAckMessage ''accepted'' 5]"]
  by (simp add: demo_agent_def)

end
